theory Spec2Isabelle
  imports Complex_Main "HOL-Library.Char_ord" "HOL-Library.List_Lexorder"
begin

section \<open>Data model (shared/schema.ts, components/execution-filters.tsx)\<close>

text \<open>
  JavaScript numbers are modelled exactly: counts are natural numbers, durations and
  timestamps (milliseconds since the epoch) are integers, averages and percentages are
  rationals. Rounding error of IEEE doubles is outside the model.
\<close>

datatype ExecutionStatus = Success | Error | Running | Waiting | Canceled

text \<open>The string a status is compared as (\<open>e.status === "success"\<close>).\<close>

fun statusString :: "ExecutionStatus \<Rightarrow> string" where
  "statusString Success = ''success''"
| "statusString Error = ''error''"
| "statusString Running = ''running''"
| "statusString Waiting = ''waiting''"
| "statusString Canceled = ''canceled''"

text \<open>
  \<open>ExecutionLog\<close>, with the fields the aggregation reads. \<open>started_at\<close> and
  \<open>created_at\<close> hold the instant that \<open>new Date(...)\<close> parses from the column.
\<close>

record ExecutionLog =
  execution_id :: string
  workflow_name :: string
  status :: ExecutionStatus
  started_at :: "int option"
  duration_ms :: "int option"
  mode :: "string option"
  created_at :: int
  n8n_instance :: "string option"

record ExecutionStats =
  totalExecutions :: nat
  successCount :: nat
  errorCount :: nat
  runningCount :: nat
  waitingCount :: nat
  canceledCount :: nat
  avgDurationMs :: rat
  successRate :: rat

record DailyStats =
  date :: string
  total :: nat
  success :: nat
  error :: nat

text \<open>\<open>DateRange\<close> of the day picker: \<open>{ from: Date | undefined; to?: Date }\<close>.\<close>

record DateRange =
  "from" :: "int option"
  to :: "int option"

record ExecutionFilters =
  instanceFilter :: "string option"
  statusFilter :: "string option"
  workflowFilter :: "string option"
  modeFilter :: "string option"
  dateRange :: "DateRange option"

section \<open>JavaScript primitives\<close>

text \<open>Truthiness of a \<open>string | null\<close>: null and the empty string are falsy.\<close>

definition truthy :: "string option \<Rightarrow> bool" where
  "truthy s = (case s of None \<Rightarrow> False | Some v \<Rightarrow> v \<noteq> [])"

text \<open>\<open>Math.round\<close>: the nearest integer, halves towards plus infinity.\<close>

definition mathRound :: "rat \<Rightarrow> int" where
  "mathRound x = \<lfloor>x + 1 / 2\<rfloor>"

text \<open>\<open>xs.reduce((a, b) => a + b, 0)\<close>.\<close>

definition reduceSum :: "int list \<Rightarrow> int" where
  "reduceSum xs = foldl (+) 0 xs"

text \<open>
  \<open>xs.filter(e => e.duration_ms !== null).map(e => e.duration_ms as number)\<close>.
\<close>

definition durationsWithValues :: "ExecutionLog list \<Rightarrow> int list" where
  "durationsWithValues xs =
     map (\<lambda>e. the (duration_ms e)) (filter (\<lambda>e. duration_ms e \<noteq> None) xs)"

text \<open>\<open>xs.filter(e => e.status === s).length\<close> for a string literal \<open>s\<close>.\<close>

definition countStatus :: "string \<Rightarrow> ExecutionLog list \<Rightarrow> nat" where
  "countStatus s xs = length (filter (\<lambda>e. statusString (status e) = s) xs)"

section \<open>date-fns\<close>

text \<open>
  date-fns is a dependency of the client; its code is not in the repository. The local
  time zone is a fixed offset \<open>tz\<close> (milliseconds east of UTC) without
  daylight-saving transitions, so every local calendar day has 86400000 milliseconds.
\<close>

definition msPerDay :: int where
  "msPerDay = 86400000"

text \<open>
  Modelled from the spec: \<open>startOfDay\<close> of date-fns, the local midnight that begins
  the calendar day of the instant.
\<close>

definition startOfDay :: "int \<Rightarrow> int \<Rightarrow> int" where
  "startOfDay tz d = d - (d + tz) mod msPerDay"

text \<open>
  Modelled from the spec: \<open>endOfDay\<close> of date-fns, the last millisecond of the
  calendar day of the instant.
\<close>

definition endOfDay :: "int \<Rightarrow> int \<Rightarrow> int" where
  "endOfDay tz d = startOfDay tz d + (msPerDay - 1)"

text \<open>
  Modelled from the spec: \<open>isWithinInterval\<close> of date-fns, the closed interval
  between the two bounds. date-fns 3 orders the bounds before it compares; date-fns 2
  throws on an inverted interval, which the day picker does not produce.
\<close>

definition isWithinInterval :: "int \<Rightarrow> int \<Rightarrow> int \<Rightarrow> bool" where
  "isWithinInterval t a b = (min a b \<le> t \<and> t \<le> max a b)"

section \<open>Client re-aggregation (client/src/pages/dashboard.tsx)\<close>

text \<open>
  The callback of \<open>executions.filter\<close> at lines 152--175 (the same callback is
  repeated at lines 220--243): workflow, mode and date range, never the status.
\<close>

definition matchesCountFilters :: "int \<Rightarrow> ExecutionFilters \<Rightarrow> ExecutionLog \<Rightarrow> bool" where
  "matchesCountFilters tz f item =
     (if truthy (workflowFilter f) \<and> Some (workflow_name item) \<noteq> workflowFilter f then False
      else if truthy (modeFilter f) \<and> mode item \<noteq> modeFilter f then False
      else (case dateRange f of
              None \<Rightarrow> True
            | Some r \<Rightarrow>
                (case (from r, started_at item) of
                   (Some fr, Some st) \<Rightarrow>
                     (let lo = startOfDay tz fr;
                          hi = (case to r of
                                  Some t \<Rightarrow> endOfDay tz t
                                | None \<Rightarrow> endOfDay tz fr)
                      in if \<not> isWithinInterval st lo hi then False else True)
                 | _ \<Rightarrow> True)))"

text \<open>\<open>hasCountFilters\<close>: a date-range object is truthy whatever it holds.\<close>

definition hasCountFilters :: "ExecutionFilters \<Rightarrow> bool" where
  "hasCountFilters f =
     (truthy (workflowFilter f) \<or> truthy (modeFilter f) \<or> dateRange f \<noteq> None)"

definition hasAnyFilters :: "ExecutionFilters \<Rightarrow> bool" where
  "hasAnyFilters f = (hasCountFilters f \<or> truthy (statusFilter f))"

text \<open>
  \<open>filteredStats\<close> (lines 143--210). \<open>executions\<close> and \<open>stats\<close> are
  \<open>undefined\<close> until their query has answered: \<open>None\<close>.
\<close>

definition filteredStats ::
  "int \<Rightarrow> ExecutionLog list option \<Rightarrow> ExecutionFilters \<Rightarrow> ExecutionStats option
     \<Rightarrow> ExecutionStats option" where
  "filteredStats tz executions f stats =
     (if \<not> hasAnyFilters f then stats
      else case executions of
        None \<Rightarrow> stats
      | Some xs \<Rightarrow>
        let filteredForCounts = filter (matchesCountFilters tz f) xs;
            filteredForDuration =
              (if truthy (statusFilter f)
               then filter (\<lambda>item. Some (statusString (status item)) = statusFilter f)
                      filteredForCounts
               else filteredForCounts);
            durations = durationsWithValues filteredForDuration;
            n = length filteredForCounts;
            sc = countStatus ''success'' filteredForCounts
        in Some \<lparr>totalExecutions = n,
                 successCount = sc,
                 errorCount = countStatus ''error'' filteredForCounts,
                 runningCount = countStatus ''running'' filteredForCounts,
                 waitingCount = countStatus ''waiting'' filteredForCounts,
                 canceledCount = countStatus ''canceled'' filteredForCounts,
                 avgDurationMs =
                   (if length durations > 0
                    then of_int (reduceSum durations) / of_nat (length durations)
                    else 0),
                 successRate = (if n > 0 then (of_nat sc / of_nat n) * 100 else 0)\<rparr>)"

text \<open>
  A JavaScript \<open>Map\<close> keeps its keys in insertion order; \<open>set\<close> on a key that
  is present replaces the value where it stands.
\<close>

fun mapSet :: "'k \<Rightarrow> 'v \<Rightarrow> ('k \<times> 'v) list \<Rightarrow> ('k \<times> 'v) list" where
  "mapSet k v [] = [(k, v)]"
| "mapSet k v ((k', v') # m) = (if k' = k then (k, v) # m else (k', v') # mapSet k v m)"

text \<open>\<open>map.get(k) || { total: 0, success: 0, error: 0 }\<close>.\<close>

definition getOrZero :: "('k \<times> nat \<times> nat \<times> nat) list \<Rightarrow> 'k \<Rightarrow> nat \<times> nat \<times> nat" where
  "getOrZero m k = (case map_of m k of None \<Rightarrow> (0, 0, 0) | Some c \<Rightarrow> c)"

text \<open>
  One step of \<open>filtered.forEach\<close> (lines 248--256). \<open>fmt\<close> stands for
  \<open>format(new Date(e.started_at), "yyyy-MM-dd")\<close>, a function of the instant.
\<close>

definition addToByDate ::
  "(int \<Rightarrow> string) \<Rightarrow> (string \<times> nat \<times> nat \<times> nat) list \<Rightarrow> ExecutionLog
     \<Rightarrow> (string \<times> nat \<times> nat \<times> nat) list" where
  "addToByDate fmt byDate e =
     (case started_at e of
        None \<Rightarrow> byDate
      | Some st \<Rightarrow>
          (case getOrZero byDate (fmt st) of
             (t, s, er) \<Rightarrow>
               mapSet (fmt st)
                 (t + 1,
                  (if status e = Success then s + 1 else s),
                  (if status e = Error then er + 1 else er))
                 byDate))"

definition toDailyStats :: "string \<times> nat \<times> nat \<times> nat \<Rightarrow> DailyStats" where
  "toDailyStats x =
     (case x of (d, t, s, er) \<Rightarrow> \<lparr>date = d, total = t, success = s, error = er\<rparr>)"

text \<open>
  \<open>filteredDailyStats\<close> (lines 213--266); the final \<open>sort\<close> is stable and orders
  the date strings, here by the lexicographic order of their characters.
\<close>

definition filteredDailyStats ::
  "int \<Rightarrow> (int \<Rightarrow> string) \<Rightarrow> ExecutionLog list option \<Rightarrow> ExecutionFilters
     \<Rightarrow> DailyStats list option \<Rightarrow> DailyStats list" where
  "filteredDailyStats tz fmt executions f dailyStats =
     (if \<not> hasCountFilters f then (case dailyStats of None \<Rightarrow> [] | Some d \<Rightarrow> d)
      else case executions of
        None \<Rightarrow> (case dailyStats of None \<Rightarrow> [] | Some d \<Rightarrow> d)
      | Some xs \<Rightarrow>
          sort_key date
            (map toDailyStats
               (foldl (addToByDate fmt) [] (filter (matchesCountFilters tz f) xs))))"

section \<open>Server aggregation (server/routes.ts, GET /api/executions/stats)\<close>

text \<open>\<open>if (instance) query = query.eq("n8n_instance", instance)\<close>.\<close>

definition instanceQuery :: "string option \<Rightarrow> ExecutionLog list \<Rightarrow> ExecutionLog list" where
  "instanceQuery inst rows =
     (if truthy inst then filter (\<lambda>e. n8n_instance e = inst) rows else rows)"

text \<open>The body of GET /api/executions/stats after the query (lines 97--126).\<close>

definition computeStats :: "ExecutionLog list \<Rightarrow> ExecutionStats" where
  "computeStats executions =
     (let n = length executions;
          sc = countStatus ''success'' executions;
          durations = durationsWithValues executions
      in \<lparr>totalExecutions = n,
          successCount = sc,
          errorCount = countStatus ''error'' executions,
          runningCount = countStatus ''running'' executions,
          waitingCount = countStatus ''waiting'' executions,
          canceledCount = countStatus ''canceled'' executions,
          avgDurationMs =
            (if length durations > 0
             then of_int (mathRound (of_int (reduceSum durations) / of_nat (length durations)))
             else 0),
          successRate = (if n > 0 then (of_nat sc / of_nat n) * 100 else 0)\<rparr>)"

text \<open>
  The handler: the storage client answers with an error message (\<open>Inl\<close>, status 500)
  or with the table's rows.
\<close>

definition statsHandler ::
  "string option \<Rightarrow> string + ExecutionLog list \<Rightarrow> string + ExecutionStats" where
  "statsHandler inst db =
     (case db of
        Inl msg \<Rightarrow> Inl msg
      | Inr rows \<Rightarrow> Inr (computeStats (instanceQuery inst rows)))"

section \<open>Query parameters (server/routes.ts)\<close>

text \<open>
  \<open>parseInt(string)\<close> without a radix: leading white space is skipped, then an
  optional sign, then an optional \<open>0x\<close> prefix that selects radix 16, then the longest
  run of digits of the radix. No digit gives \<open>NaN\<close>, here \<open>None\<close>; an absent
  parameter is \<open>undefined\<close>, which parses to \<open>NaN\<close> as well.
\<close>

definition isStrWhiteSpace :: "char \<Rightarrow> bool" where
  "isStrWhiteSpace c = (c \<in> {CHR '' '', CHR 0x09, CHR 0x0A, CHR 0x0B, CHR 0x0C, CHR 0x0D})"

definition digitValue :: "char \<Rightarrow> nat option" where
  "digitValue c =
     (let n = (of_char c :: nat)
      in if 48 \<le> n \<and> n \<le> 57 then Some (n - 48)
         else if 97 \<le> n \<and> n \<le> 122 then Some (n - 87)
         else if 65 \<le> n \<and> n \<le> 90 then Some (n - 55)
         else None)"

definition parseInt :: "string option \<Rightarrow> int option" where
  "parseInt input =
     (case input of
        None \<Rightarrow> None
      | Some str \<Rightarrow>
          (let s = dropWhile isStrWhiteSpace str;
               neg = (take 1 s = ''-'');
               s1 = (if take 1 s = ''+'' \<or> take 1 s = ''-'' then drop 1 s else s);
               hex = (take 2 s1 = ''0x'' \<or> take 2 s1 = ''0X'');
               radix = (if hex then 16 else 10);
               s2 = (if hex then drop 2 s1 else s1);
               ds = takeWhile
                      (\<lambda>c. case digitValue c of None \<Rightarrow> False | Some d \<Rightarrow> d < radix) s2;
               n = foldl (\<lambda>a c. a * radix + the (digitValue c)) 0 ds
           in if ds = [] then None
              else Some (if neg then - int n else int n)))"

text \<open>\<open>parseInt(req.query.limit as string) || 100\<close>: \<open>NaN\<close> and 0 are falsy.\<close>

definition orDefault :: "int option \<Rightarrow> int \<Rightarrow> int" where
  "orDefault p d = (case p of None \<Rightarrow> d | Some n \<Rightarrow> if n = 0 then d else n)"

definition executionsLimit :: "string option \<Rightarrow> int" where
  "executionsLimit q = orDefault (parseInt q) 100"

definition dailyDays :: "string option \<Rightarrow> int" where
  "dailyDays q = orDefault (parseInt q) 14"

section \<open>Daily statistics (server/routes.ts, GET /api/executions/daily)\<close>

text \<open>
  The key of \<open>dailyMap\<close> is \<open>toISOString().split("T")[0]\<close>, the UTC calendar date
  of an instant; it is represented by the number of that day (days since the epoch), which
  the date string determines and is determined by.
\<close>

definition utcDay :: "int \<Rightarrow> int" where
  "utcDay t = t div msPerDay"

text \<open>
  The time zone of the server process, as ECMAScript reads it: the offset from UTC (in
  milliseconds) in force at a UTC instant, and the offset with which a local wall-clock
  time is read back as an instant. The two differ around a daylight-saving change.
\<close>

record TimeZone =
  offsetAtUtc :: "int \<Rightarrow> int"
  offsetAtLocal :: "int \<Rightarrow> int"

text \<open>
  \<open>date.setDate(date.getDate() - k)\<close> on \<open>date = new Date()\<close>: the local wall-clock
  time of \<open>now\<close>, moved back by \<open>k\<close> calendar days at the same time of day, read
  back as an instant. The handler reads the clock once per loop round; the model reads it
  once, \<open>now\<close>.
\<close>

definition daysBefore :: "TimeZone \<Rightarrow> int \<Rightarrow> int \<Rightarrow> int" where
  "daysBefore zone now k =
     (let wall = now + offsetAtUtc zone now - k * msPerDay
      in wall - offsetAtLocal zone wall)"

text \<open>The loop \<open>for (let i = 0; i <= days; i++)\<close> (lines 166--171).\<close>

definition seedDailyMap :: "TimeZone \<Rightarrow> int \<Rightarrow> int \<Rightarrow> (int \<times> nat \<times> nat \<times> nat) list" where
  "seedDailyMap zone now days =
     foldl (\<lambda>m i. mapSet (utcDay (daysBefore zone now (days - i))) (0, 0, 0) m) [] [0..days]"

text \<open>One step of \<open>(data || []).forEach\<close> (lines 174--184).\<close>

definition addToDailyMap ::
  "(int \<times> nat \<times> nat \<times> nat) list \<Rightarrow> ExecutionLog \<Rightarrow> (int \<times> nat \<times> nat \<times> nat) list" where
  "addToDailyMap m execution =
     (case getOrZero m (utcDay (created_at execution)) of
        (t, s, er) \<Rightarrow>
          mapSet (utcDay (created_at execution))
            (if status execution = Success then (t + 1, s + 1, er)
             else if status execution = Error then (t + 1, s, er + 1)
             else (t + 1, s, er))
            m)"

definition dailyMap ::
  "TimeZone \<Rightarrow> int \<Rightarrow> int \<Rightarrow> ExecutionLog list \<Rightarrow> (int \<times> nat \<times> nat \<times> nat) list" where
  "dailyMap zone now days data = foldl addToDailyMap (seedDailyMap zone now days) data"

text \<open>
  The query (lines 145--153): rows created at or after \<open>startDate\<close>, oldest first.
\<close>

definition dailyQuery ::
  "TimeZone \<Rightarrow> int \<Rightarrow> int \<Rightarrow> string option \<Rightarrow> ExecutionLog list \<Rightarrow> ExecutionLog list" where
  "dailyQuery zone now days inst rows =
     sort_key created_at
       (filter (\<lambda>e. daysBefore zone now days \<le> created_at e) (instanceQuery inst rows))"

text \<open>
  The response (lines 186--193). \<open>label\<close> stands for
  \<open>new Date(date).toLocaleDateString("en-US", { month: "short", day: "numeric" })\<close>.
\<close>

definition dailyStats :: "(int \<Rightarrow> string) \<Rightarrow> (int \<times> nat \<times> nat \<times> nat) list \<Rightarrow> DailyStats list" where
  "dailyStats label m =
     map (\<lambda>x. case x of (d, t, s, er) \<Rightarrow>
            \<lparr>date = label d, total = t, success = s, error = er\<rparr>) m"

definition dailyHandler ::
  "(int \<Rightarrow> string) \<Rightarrow> TimeZone \<Rightarrow> int \<Rightarrow> string option \<Rightarrow> string option
     \<Rightarrow> string + ExecutionLog list \<Rightarrow> string + DailyStats list" where
  "dailyHandler label zone now daysParam inst db =
     (case db of
        Inl msg \<Rightarrow> Inl msg
      | Inr rows \<Rightarrow>
          (let days = dailyDays daysParam
           in Inr (dailyStats label
                     (dailyMap zone now days (dailyQuery zone now days inst rows)))))"

section \<open>Duration formatting\<close>

text \<open>The decimal digits of an integer, as a template literal prints it.\<close>

definition digitChar :: "int \<Rightarrow> char" where
  "digitChar d = ''0123456789'' ! nat d"

function showDigits :: "int \<Rightarrow> string" where
  "showDigits n =
     (if n < 10 then [digitChar n]
      else showDigits (n div 10) @ [digitChar (n mod 10)])"
  by pat_completeness auto
termination
  by (relation "measure nat") auto

declare showDigits.simps [simp del]

definition showInt :: "int \<Rightarrow> string" where
  "showInt i = (if i < 0 then CHR ''-'' # showDigits (- i) else showDigits i)"

text \<open>\<open>formatDuration\<close> of the execution table (execution-table.tsx).\<close>

definition formatDuration :: "rat option \<Rightarrow> string" where
  "formatDuration ms =
     (case ms of
        None \<Rightarrow> ''-''
      | Some v \<Rightarrow>
          if v < 1000 then showInt (mathRound v) @ ''ms''
          else if v < 60000 then showInt (mathRound (v / 1000)) @ ''s''
          else showInt (mathRound (v / 60000)) @ ''m'')"

text \<open>
  \<open>formatDuration\<close> of the dashboard page (dashboard.tsx, lines 135--138), which
  renders the Avg Duration card: \<open>undefined\<close> and 0 are falsy.
\<close>

definition formatDurationCard :: "rat option \<Rightarrow> string" where
  "formatDurationCard ms =
     (case ms of
        None \<Rightarrow> ''0ms''
      | Some v \<Rightarrow> if v = 0 then ''0ms'' else showInt (mathRound v) @ ''ms'')"

section \<open>Properties stated by the specification\<close>

text \<open>Total executions are the sum of the five per-status counts.\<close>

definition countsAddUp :: "ExecutionStats \<Rightarrow> bool" where
  "countsAddUp s =
     (totalExecutions s =
        successCount s + errorCount s + runningCount s + waitingCount s + canceledCount s)"

text \<open>The success rate is a percentage of the total, and 0 for an empty total.\<close>

definition successRateOk :: "ExecutionStats \<Rightarrow> bool" where
  "successRateOk s =
     (successRate s =
        (if totalExecutions s = 0 then 0
         else 100 * of_nat (successCount s) / of_nat (totalExecutions s))
      \<and> 0 \<le> successRate s \<and> successRate s \<le> 100)"

section \<open>Execution table (client/src/components/execution-table.tsx)\<close>

text \<open>
  The callback of \<open>data.filter\<close> in \<open>filteredData\<close>: the status check, then the
  same three checks as in the dashboard page.
\<close>

definition tableMatches :: "int \<Rightarrow> ExecutionFilters \<Rightarrow> ExecutionLog \<Rightarrow> bool" where
  "tableMatches tz f item =
     (if truthy (statusFilter f) \<and> Some (statusString (status item)) \<noteq> statusFilter f then False
      else matchesCountFilters tz f item)"

section \<open>The date-range clause in the words of the specification\<close>

text \<open>The number of the local calendar day of an instant.\<close>

definition localDay :: "int \<Rightarrow> int \<Rightarrow> int" where
  "localDay tz t = (t + tz) div msPerDay"

text \<open>The workflow and mode clauses: exact equality, or pass when the filter is absent.\<close>

definition passesWorkflowAndMode :: "ExecutionFilters \<Rightarrow> ExecutionLog \<Rightarrow> bool" where
  "passesWorkflowAndMode f item =
     ((\<not> truthy (workflowFilter f) \<or> workflowFilter f = Some (workflow_name item))
      \<and> (\<not> truthy (modeFilter f) \<or> modeFilter f = mode item))"

text \<open>
  The start instant lies in [start-of-day(from), end-of-day(to ?? from)], bounds included.
\<close>

definition inDateRange :: "int \<Rightarrow> int \<Rightarrow> int option \<Rightarrow> int \<Rightarrow> bool" where
  "inDateRange tz fr toOpt st =
     (startOfDay tz fr \<le> st \<and> st \<le> endOfDay tz (case toOpt of None \<Rightarrow> fr | Some t \<Rightarrow> t))"

section \<open>The eligible subsets and their statistics in the words of the specification\<close>

text \<open>
  The date-range criterion of section 4.1, with the treatment of undated records that
  the date-range clause of the client has: no constraint without a range or without its
  start; a record without a start time passes; a dated record passes when its start
  lies in [start-of-day(from), end-of-day(to ?? from)].
\<close>

definition passesDateRange :: "int \<Rightarrow> ExecutionFilters \<Rightarrow> ExecutionLog \<Rightarrow> bool" where
  "passesDateRange tz f item =
     (case dateRange f of
        None \<Rightarrow> True
      | Some r \<Rightarrow>
          (case from r of
             None \<Rightarrow> True
           | Some fr \<Rightarrow>
               (case started_at item of
                  None \<Rightarrow> True
                | Some st \<Rightarrow> inDateRange tz fr (to r) st)))"

text \<open>
  Section 4.1 as it is written: the same, but with a date range active a record without
  a start time is excluded.
\<close>

definition passesDateRangeStrict :: "int \<Rightarrow> ExecutionFilters \<Rightarrow> ExecutionLog \<Rightarrow> bool" where
  "passesDateRangeStrict tz f item =
     (case dateRange f of
        None \<Rightarrow> True
      | Some r \<Rightarrow>
          (case from r of
             None \<Rightarrow> True
           | Some fr \<Rightarrow>
               (case started_at item of
                  None \<Rightarrow> False
                | Some st \<Rightarrow> inDateRange tz fr (to r) st)))"

text \<open>A date range whose end, when both ends are set, is not before its start.\<close>

definition rangeOrdered :: "ExecutionFilters \<Rightarrow> bool" where
  "rangeOrdered f =
     (case dateRange f of
        None \<Rightarrow> True
      | Some r \<Rightarrow>
          (case from r of
             None \<Rightarrow> True
           | Some fr \<Rightarrow> (case to r of None \<Rightarrow> True | Some t \<Rightarrow> fr \<le> t)))"

text \<open>
  The count-eligible subset: the records whose workflow name and mode equal the filters
  that are set and whose start time passes the date-range criterion. The status filter
  plays no part. The duration-eligible subset narrows it by the status filter. A filter
  is absent when JavaScript reads it as falsy.
\<close>

definition countEligible :: "int \<Rightarrow> ExecutionFilters \<Rightarrow> ExecutionLog \<Rightarrow> bool" where
  "countEligible tz f item = (passesWorkflowAndMode f item \<and> passesDateRange tz f item)"

definition countSet :: "int \<Rightarrow> ExecutionFilters \<Rightarrow> ExecutionLog list \<Rightarrow> ExecutionLog list" where
  "countSet tz f records = filter (countEligible tz f) records"

definition countSetStrict :: "int \<Rightarrow> ExecutionFilters \<Rightarrow> ExecutionLog list \<Rightarrow> ExecutionLog list" where
  "countSetStrict tz f records =
     filter (\<lambda>item. passesWorkflowAndMode f item \<and> passesDateRangeStrict tz f item) records"

definition matchesStatusFilter :: "ExecutionFilters \<Rightarrow> ExecutionLog \<Rightarrow> bool" where
  "matchesStatusFilter f r =
     (\<not> truthy (statusFilter f) \<or> statusFilter f = Some (statusString (status r)))"

definition durationSet :: "int \<Rightarrow> ExecutionFilters \<Rightarrow> ExecutionLog list \<Rightarrow> ExecutionLog list" where
  "durationSet tz f records = filter (matchesStatusFilter f) (countSet tz f records)"

definition countOf :: "ExecutionStatus \<Rightarrow> ExecutionLog list \<Rightarrow> nat" where
  "countOf st xs = length (filter (\<lambda>e. status e = st) xs)"

text \<open>The arithmetic mean of the non-null durations, 0 when there is none.\<close>

definition meanDuration :: "ExecutionLog list \<Rightarrow> rat" where
  "meanDuration xs =
     (let ds = List.map_filter duration_ms xs
      in if ds = [] then 0 else of_int (sum_list ds) / of_nat (length ds))"

definition specStats :: "int \<Rightarrow> ExecutionFilters \<Rightarrow> ExecutionLog list \<Rightarrow> ExecutionStats" where
  "specStats tz f records =
     \<lparr>totalExecutions = length (countSet tz f records),
      successCount = countOf Success (countSet tz f records),
      errorCount = countOf Error (countSet tz f records),
      runningCount = countOf Running (countSet tz f records),
      waitingCount = countOf Waiting (countSet tz f records),
      canceledCount = countOf Canceled (countSet tz f records),
      avgDurationMs = meanDuration (durationSet tz f records),
      successRate =
        (if length (countSet tz f records) = 0 then 0
         else 100 * of_nat (countOf Success (countSet tz f records))
                / of_nat (length (countSet tz f records)))\<rparr>"

text \<open>Two stats objects with the same total and the same five per-status counts.\<close>

definition sameCounts :: "ExecutionStats \<Rightarrow> ExecutionStats \<Rightarrow> bool" where
  "sameCounts a b =
     (totalExecutions a = totalExecutions b \<and> successCount a = successCount b
      \<and> errorCount a = errorCount b \<and> runningCount a = runningCount b
      \<and> waitingCount a = waitingCount b \<and> canceledCount a = canceledCount b)"

section \<open>Execution list (server/routes.ts, GET /api/executions)\<close>

text \<open>
  The handler orders by creation time, newest first, keeps the rows of the instance and
  lets the store cut the result at \<open>limit\<close>. What the store does with a limit is
  the parameter \<open>limitRows\<close>; it may answer with an error.
\<close>

definition executionsHandler ::
  "(int \<Rightarrow> ExecutionLog list \<Rightarrow> string + ExecutionLog list) \<Rightarrow> string option \<Rightarrow> string option
     \<Rightarrow> string + ExecutionLog list \<Rightarrow> string + ExecutionLog list" where
  "executionsHandler limitRows limitParam inst db =
     (case db of
        Inl msg \<Rightarrow> Inl msg
      | Inr rows \<Rightarrow>
          limitRows (executionsLimit limitParam)
            (rev (sort_key created_at (instanceQuery inst rows))))"

section \<open>Daily buckets and rounding in the words of the specification\<close>

text \<open>The calendar days of the trailing window, [today - days, today].\<close>

definition window :: "int \<Rightarrow> int \<Rightarrow> int list" where
  "window now days = [utcDay now - days .. utcDay now]"

text \<open>The rows created on a day, and their total, success and error counts.\<close>

definition onDay :: "int \<Rightarrow> ExecutionLog list \<Rightarrow> ExecutionLog list" where
  "onDay d xs = filter (\<lambda>e. utcDay (created_at e) = d) xs"

definition dayCounts :: "int \<Rightarrow> ExecutionLog list \<Rightarrow> nat \<times> nat \<times> nat" where
  "dayCounts d xs =
     (length (onDay d xs), countOf Success (onDay d xs), countOf Error (onDay d xs))"

text \<open>A zone with the same offset at every instant.\<close>

definition fixedZone :: "int \<Rightarrow> TimeZone" where
  "fixedZone c = \<lparr>offsetAtUtc = (\<lambda>t. c), offsetAtLocal = (\<lambda>l. c)\<rparr>"

text \<open>A value rounded to a whole number: the nearest integer, a half going up.\<close>

definition roundedWhole :: "rat \<Rightarrow> int" where
  "roundedWhole v = (if v - of_int \<lfloor>v\<rfloor> < 1 / 2 then \<lfloor>v\<rfloor> else \<lfloor>v\<rfloor> + 1)"

section \<open>Sample inputs\<close>

definition sampleLog :: ExecutionLog where
  "sampleLog = \<lparr>execution_id = ''e1'', workflow_name = ''A'', status = Success,
     started_at = Some 0, duration_ms = Some 100, mode = Some ''manual'',
     created_at = 0, n8n_instance = Some ''prod''\<rparr>"

definition noFilters :: ExecutionFilters where
  "noFilters = \<lparr>instanceFilter = None, statusFilter = None, workflowFilter = None,
     modeFilter = None, dateRange = None\<rparr>"

definition sampleStats :: ExecutionStats where
  "sampleStats = \<lparr>totalExecutions = 5, successCount = 4, errorCount = 1, runningCount = 0,
     waitingCount = 0, canceledCount = 0, avgDurationMs = 100, successRate = 80\<rparr>"

definition sampleDaily :: "DailyStats list" where
  "sampleDaily = [\<lparr>date = ''Jan 1'', total = 5, success = 4, error = 1\<rparr>]"

text \<open>Three fetched records: two successes of workflow A, one undurationed error of B.\<close>

definition sampleLogs :: "ExecutionLog list" where
  "sampleLogs =
     [sampleLog,
      sampleLog\<lparr>execution_id := ''e2'', duration_ms := Some 101\<rparr>,
      sampleLog\<lparr>execution_id := ''e3'', workflow_name := ''B'', status := Error,
        duration_ms := None\<rparr>]"

definition workflowA :: ExecutionFilters where
  "workflowA = noFilters\<lparr>workflowFilter := Some ''A''\<rparr>"

definition instanceOnly :: ExecutionFilters where
  "instanceOnly = noFilters\<lparr>instanceFilter := Some ''prod''\<rparr>"

definition statusOnly :: ExecutionFilters where
  "statusOnly = noFilters\<lparr>statusFilter := Some ''success''\<rparr>"

text \<open>A date range that starts on the day of the epoch.\<close>

definition dayFilter :: "int option \<Rightarrow> ExecutionFilters" where
  "dayFilter t = noFilters\<lparr>dateRange := Some \<lparr>from = Some 0, to = t\<rparr>\<rparr>"

text \<open>A running execution whose start time has not been recorded.\<close>

definition undatedLog :: ExecutionLog where
  "undatedLog = sampleLog\<lparr>execution_id := ''e4'', status := Running, started_at := None,
     duration_ms := None\<rparr>"

text \<open>
  A server zone that changes from UTC-5 to UTC-4 at 2024-03-10T07:00Z, as
  America/New_York does, described around that change: local times before 03:00 of that
  day are read with UTC-5. The clock value is 2024-03-10T23:30Z, day 19792 of the epoch.
\<close>

definition newYorkSpring2024 :: TimeZone where
  "newYorkSpring2024 =
     \<lparr>offsetAtUtc = (\<lambda>t. if t < 1710054000000 then - 18000000 else - 14400000),
      offsetAtLocal = (\<lambda>l. if l < 1710039600000 then - 18000000 else - 14400000)\<rparr>"

definition springEvening :: int where
  "springEvening = 1710113400000"

section \<open>The unfiltered dashboard shows the server's values\<close>

text \<open>
  C2. When instanceFilter, statusFilter, workflowFilter, modeFilter and dateRange are all
  absent, the client re-aggregation returns the stats object and the daily buckets that
  the server supplied, unchanged, whatever the fetched record list is (also when it has
  not arrived, or is a truncated view of the store).
\<close>

theorem unfiltered_returns_server_values:
  assumes "instanceFilter f = None" and "statusFilter f = None"
    and "workflowFilter f = None" and "modeFilter f = None" and "dateRange f = None"
  shows "filteredStats tz executions f (Some serverStats) = Some serverStats
       \<and> filteredDailyStats tz fmt executions f (Some serverDaily) = serverDaily"
  using assms
  by (simp add: filteredStats_def filteredDailyStats_def hasAnyFilters_def
      hasCountFilters_def truthy_def)

theorem unfiltered_returns_server_values_witness:
  "instanceFilter noFilters = None \<and> statusFilter noFilters = None
   \<and> workflowFilter noFilters = None \<and> modeFilter noFilters = None
   \<and> dateRange noFilters = None
   \<and> filteredStats 0 (Some [sampleLog]) noFilters (Some sampleStats) = Some sampleStats
   \<and> filteredDailyStats 0 (\<lambda>t. ''2024-01-01'') (Some [sampleLog]) noFilters
        (Some sampleDaily) = sampleDaily"
proof -
  have h: "instanceFilter noFilters = None" "statusFilter noFilters = None"
    "workflowFilter noFilters = None" "modeFilter noFilters = None"
    "dateRange noFilters = None"
    by (simp_all add: noFilters_def)
  show ?thesis
    using h unfiltered_returns_server_values [OF h, of 0 "Some [sampleLog]" sampleStats
        "\<lambda>t. ''2024-01-01''" sampleDaily]
    by simp
qed

section \<open>Counts and success rate on both paths\<close>

lemma length_by_status:
  "length xs = countStatus ''success'' xs + countStatus ''error'' xs
     + countStatus ''running'' xs + countStatus ''waiting'' xs + countStatus ''canceled'' xs"
proof (induction xs)
  case Nil
  show ?case by (simp add: countStatus_def)
next
  case (Cons e xs)
  then show ?case by (cases "status e") (simp_all add: countStatus_def)
qed

lemma countStatus_le: "countStatus s xs \<le> length xs"
  by (simp add: countStatus_def)

lemma countsAddUp_computeStats: "countsAddUp (computeStats xs)"
  unfolding countsAddUp_def computeStats_def Let_def
  using length_by_status [of xs] by simp

lemma rate_bounds:
  fixes a n :: nat
  assumes "a \<le> n" "0 < n"
  shows "(of_nat a / of_nat n) * (100::rat) = 100 * of_nat a / of_nat n"
    and "0 \<le> (of_nat a / of_nat n) * (100::rat)"
    and "(of_nat a / of_nat n) * (100::rat) \<le> 100"
proof -
  show "(of_nat a / of_nat n) * (100::rat) = 100 * of_nat a / of_nat n" by simp
  show "0 \<le> (of_nat a / of_nat n) * (100::rat)" by simp
  have "(of_nat a :: rat) \<le> of_nat n" using assms(1) by simp
  then have "(of_nat a :: rat) / of_nat n \<le> 1" using assms(2) by (simp add: divide_le_eq)
  then have "(of_nat a / of_nat n) * (100::rat) \<le> 1 * 100"
    by (rule mult_right_mono) simp
  then show "(of_nat a / of_nat n) * (100::rat) \<le> 100" by (simp only: mult_1_left)
qed

lemma successRateOk_computeStats: "successRateOk (computeStats xs)"
proof (cases "length xs = 0")
  case True
  then show ?thesis by (simp add: successRateOk_def computeStats_def Let_def)
next
  case False
  then have n: "0 < length xs" by simp
  show ?thesis
    unfolding successRateOk_def computeStats_def Let_def
    using rate_bounds [OF countStatus_le [of "''success''" xs] n] n by simp
qed

text \<open>
  With a filter active and the records fetched, the client result is the server
  computation over the count-eligible records, except for the average duration.
\<close>

lemma filteredStats_recompute:
  assumes "hasAnyFilters f"
  shows "filteredStats tz (Some xs) f stats =
     Some ((computeStats (filter (matchesCountFilters tz f) xs))
       \<lparr>avgDurationMs :=
          (let durations = durationsWithValues
                 (if truthy (statusFilter f)
                  then filter (\<lambda>item. Some (statusString (status item)) = statusFilter f)
                         (filter (matchesCountFilters tz f) xs)
                  else filter (matchesCountFilters tz f) xs)
           in if length durations > 0
              then of_int (reduceSum durations) / of_nat (length durations) else 0)\<rparr>)"
  using assms by (simp add: filteredStats_def computeStats_def Let_def)

lemma countsAddUp_avg: "countsAddUp (s\<lparr>avgDurationMs := a\<rparr>) = countsAddUp s"
  by (simp add: countsAddUp_def)

lemma successRateOk_avg: "successRateOk (s\<lparr>avgDurationMs := a\<rparr>) = successRateOk s"
  by (simp add: successRateOk_def)

lemma filteredStats_cases:
  "filteredStats tz executions f stats = stats \<or>
   (\<exists>xs a. filteredStats tz executions f stats =
      Some ((computeStats xs)\<lparr>avgDurationMs := a\<rparr>))"
proof (cases "hasAnyFilters f")
  case False
  then show ?thesis by (simp add: filteredStats_def)
next
  case True
  show ?thesis
  proof (cases executions)
    case None
    then show ?thesis by (simp add: filteredStats_def)
  next
    case (Some xs)
    show ?thesis unfolding Some filteredStats_recompute [OF True] by blast
  qed
qed

text \<open>
  C6. On the server stats path and on the client re-aggregation path (whose input stats
  are a server response), for every record set and every filter combination,
  totalExecutions = successCount + errorCount + runningCount + waitingCount +
  canceledCount.
\<close>

theorem total_is_sum_of_status_counts:
  "(\<exists>s. statsHandler inst (Inr rows) = Inr s \<and> countsAddUp s) \<and>
   (\<exists>s. filteredStats tz (Some xs) f (Some (computeStats store)) = Some s \<and> countsAddUp s)"
proof
  show "\<exists>s. statsHandler inst (Inr rows) = Inr s \<and> countsAddUp s"
    by (simp add: statsHandler_def countsAddUp_computeStats)
  show "\<exists>s. filteredStats tz (Some xs) f (Some (computeStats store)) = Some s \<and> countsAddUp s"
    using filteredStats_cases [of tz "Some xs" f "Some (computeStats store)"]
    by (auto simp: countsAddUp_computeStats countsAddUp_avg)
qed

theorem total_is_sum_of_status_counts_witness:
  "(\<exists>s. statsHandler None (Inr [sampleLog]) = Inr s \<and> countsAddUp s) \<and>
   (\<exists>s. filteredStats 0 (Some [sampleLog]) (noFilters\<lparr>statusFilter := Some ''error''\<rparr>)
          (Some (computeStats [sampleLog, sampleLog])) = Some s \<and> countsAddUp s)"
  by (rule total_is_sum_of_status_counts)

text \<open>
  C7. On both paths, successRate is 0 when totalExecutions is 0 and
  100 * successCount / totalExecutions otherwise, and so lies between 0 and 100.
\<close>

theorem success_rate_formula:
  "(\<exists>s. statsHandler inst (Inr rows) = Inr s \<and> successRateOk s) \<and>
   (\<exists>s. filteredStats tz (Some xs) f (Some (computeStats store)) = Some s \<and> successRateOk s)"
proof
  show "\<exists>s. statsHandler inst (Inr rows) = Inr s \<and> successRateOk s"
    by (simp add: statsHandler_def successRateOk_computeStats)
  show "\<exists>s. filteredStats tz (Some xs) f (Some (computeStats store)) = Some s \<and> successRateOk s"
    using filteredStats_cases [of tz "Some xs" f "Some (computeStats store)"]
    by (auto simp: successRateOk_computeStats successRateOk_avg)
qed

theorem success_rate_formula_witness:
  "(\<exists>s. statsHandler None (Inr [sampleLog]) = Inr s \<and> successRateOk s) \<and>
   (\<exists>s. filteredStats 0 (Some [sampleLog]) (noFilters\<lparr>workflowFilter := Some ''B''\<rparr>)
          (Some (computeStats [sampleLog])) = Some s \<and> successRateOk s)"
  by (rule success_rate_formula)

section \<open>The date-range clause\<close>

lemma startOfDay_le: "startOfDay tz d \<le> d"
  by (simp add: startOfDay_def msPerDay_def)

lemma le_endOfDay: "d \<le> endOfDay tz d"
proof -
  have "(d + tz) mod msPerDay < msPerDay" by (simp add: msPerDay_def)
  then show ?thesis by (simp add: endOfDay_def startOfDay_def)
qed

lemma startOfDay_localDay: "startOfDay tz d = localDay tz d * msPerDay - tz"
proof -
  have "(d + tz) = (d + tz) div msPerDay * msPerDay + (d + tz) mod msPerDay" by simp
  then show ?thesis unfolding startOfDay_def localDay_def by linarith
qed

lemma div_eq_iff_interval:
  fixes b q D :: int
  assumes D: "0 < D"
  shows "q * D \<le> b \<and> b < q * D + D \<longleftrightarrow> b div D = q"
proof
  assume a: "q * D \<le> b \<and> b < q * D + D"
  show "b div D = q"
  proof (rule int_div_pos_eq)
    show "b = D * q + (b - q * D)" by (simp add: mult.commute)
    show "0 \<le> b - q * D" using a by simp
    show "b - q * D < D" using a by simp
  qed
next
  assume e: "b div D = q"
  have 1: "b = q * D + b mod D" using e by (metis div_mult_mod_eq)
  have 2: "0 \<le> b mod D" "b mod D < D" using D by simp_all
  show "q * D \<le> b \<and> b < q * D + D" using 1 2 by linarith
qed

lemma same_day_iff:
  "startOfDay tz fr \<le> st \<and> st \<le> endOfDay tz fr \<longleftrightarrow> localDay tz st = localDay tz fr"
proof -
  have D: "0 < msPerDay" by (simp add: msPerDay_def)
  have "startOfDay tz fr \<le> st \<and> st \<le> endOfDay tz fr \<longleftrightarrow>
      localDay tz fr * msPerDay \<le> st + tz \<and> st + tz < localDay tz fr * msPerDay + msPerDay"
    unfolding endOfDay_def startOfDay_localDay by linarith
  also have "\<dots> \<longleftrightarrow> (st + tz) div msPerDay = localDay tz fr"
    by (rule div_eq_iff_interval [OF D])
  finally show ?thesis by (simp add: localDay_def)
qed

lemma matchesCountFilters_dateRange:
  assumes "dateRange f = Some r" and "from r = Some fr"
    and "fr \<le> (case to r of None \<Rightarrow> fr | Some t \<Rightarrow> t)"
  shows "matchesCountFilters tz f item \<longleftrightarrow>
     passesWorkflowAndMode f item \<and>
     (case started_at item of None \<Rightarrow> True | Some st \<Rightarrow> inDateRange tz fr (to r) st)"
proof -
  have "startOfDay tz fr \<le> endOfDay tz (case to r of None \<Rightarrow> fr | Some t \<Rightarrow> t)"
    using startOfDay_le [of tz fr] le_endOfDay [of "case to r of None \<Rightarrow> fr | Some t \<Rightarrow> t" tz] assms(3)
    by linarith
  then show ?thesis
    using assms(1,2)
    by (auto simp: matchesCountFilters_def passesWorkflowAndMode_def inDateRange_def
        isWithinInterval_def Let_def split: option.splits)
qed

text \<open>
  C5, as amended. With a date range whose start is set (and not after its end), a record
  with a start time passes the date clause if and only if that time lies in
  [start-of-day(from), end-of-day(to ?? from)], bounds included; when \<open>to\<close> is absent
  this is the single local calendar day of \<open>from\<close>. A record without a start time
  passes the clause: the check is skipped for it. The execution table applies the same
  clause after its status check.
\<close>

theorem date_range_clause:
  assumes "dateRange f = Some r" and "from r = Some fr"
    and "fr \<le> (case to r of None \<Rightarrow> fr | Some t \<Rightarrow> t)"
  shows "(matchesCountFilters tz f item \<longleftrightarrow>
           passesWorkflowAndMode f item \<and>
           (case started_at item of None \<Rightarrow> True | Some st \<Rightarrow> inDateRange tz fr (to r) st))
       \<and> (tableMatches tz f item \<longleftrightarrow>
           matchesStatusFilter f item \<and> passesWorkflowAndMode f item \<and>
           (case started_at item of None \<Rightarrow> True | Some st \<Rightarrow> inDateRange tz fr (to r) st))
       \<and> (inDateRange tz fr None st \<longleftrightarrow> localDay tz st = localDay tz fr)"
proof -
  note m = matchesCountFilters_dateRange [OF assms, of tz item]
  have t: "tableMatches tz f item \<longleftrightarrow> matchesStatusFilter f item \<and> matchesCountFilters tz f item"
    by (auto simp: tableMatches_def matchesStatusFilter_def)
  have d: "inDateRange tz fr None st \<longleftrightarrow> localDay tz st = localDay tz fr"
    using same_day_iff [of tz fr st] by (simp add: inDateRange_def)
  show ?thesis using m t d by simp
qed

theorem date_range_clause_witness:
  "dateRange (dayFilter None) = Some \<lparr>from = Some 0, to = None\<rparr>
   \<and> matchesCountFilters 0 (dayFilter None) sampleLog
   \<and> \<not> matchesCountFilters 0 (dayFilter None) (sampleLog\<lparr>started_at := Some 86400000\<rparr>)
   \<and> inDateRange 0 0 None 86399999
   \<and> localDay 0 86399999 = localDay 0 0"
proof -
  have h: "dateRange (dayFilter None) = Some \<lparr>from = Some 0, to = None\<rparr>"
    by (simp add: dayFilter_def)
  have 1: "matchesCountFilters 0 (dayFilter None) sampleLog" by code_simp
  have 2: "\<not> matchesCountFilters 0 (dayFilter None) (sampleLog\<lparr>started_at := Some 86400000\<rparr>)"
    by code_simp
  have 3: "localDay 0 86399999 = localDay 0 0" by code_simp
  from date_range_clause [OF h, of 0 0 sampleLog 86399999] 3
  have "inDateRange 0 0 None 86399999" by simp
  with h 1 2 3 show ?thesis by simp
qed

text \<open>
  C5 as stated fails for a record without a start time: with a date range active it is
  kept, by the dashboard and by the execution table.
\<close>

theorem undated_record_passes_date_range:
  "started_at undatedLog = None \<and> matchesCountFilters 0 (dayFilter None) undatedLog
   \<and> tableMatches 0 (dayFilter None) undatedLog"
  by code_simp

section \<open>The client recomputation against the specification and the server\<close>

lemma foldl_plus: "foldl (+) a xs = a + sum_list (xs :: int list)"
  by (induction xs arbitrary: a) simp_all

lemma reduceSum_sum_list: "reduceSum xs = sum_list xs"
  by (simp add: reduceSum_def foldl_plus)

lemma durationsWithValues_map_filter: "durationsWithValues xs = List.map_filter duration_ms xs"
  by (simp add: durationsWithValues_def List.map_filter_def comp_def)

lemma statusString_eq:
  "statusString st = ''success'' \<longleftrightarrow> st = Success"
  "statusString st = ''error'' \<longleftrightarrow> st = Error"
  "statusString st = ''running'' \<longleftrightarrow> st = Running"
  "statusString st = ''waiting'' \<longleftrightarrow> st = Waiting"
  "statusString st = ''canceled'' \<longleftrightarrow> st = Canceled"
  by (cases st; simp)+

lemma countStatus_countOf:
  "countStatus ''success'' xs = countOf Success xs"
  "countStatus ''error'' xs = countOf Error xs"
  "countStatus ''running'' xs = countOf Running xs"
  "countStatus ''waiting'' xs = countOf Waiting xs"
  "countStatus ''canceled'' xs = countOf Canceled xs"
  by (simp_all add: countStatus_def countOf_def statusString_eq)

lemma client_avg_mean:
  "(let durations = durationsWithValues xs
    in if length durations > 0
       then of_int (reduceSum durations) / of_nat (length durations) else (0::rat))
   = meanDuration xs"
  by (simp add: meanDuration_def Let_def durationsWithValues_map_filter reduceSum_sum_list)

lemma statusNarrowing:
  "(if truthy (statusFilter f)
    then filter (\<lambda>item. Some (statusString (status item)) = statusFilter f) ys
    else ys) = filter (matchesStatusFilter f) ys"
  by (auto simp: matchesStatusFilter_def intro: filter_cong)

text \<open>
  The callback of the client keeps exactly the count-eligible records, for a date range
  that is not inverted.
\<close>

lemma matchesCountFilters_countEligible:
  assumes "rangeOrdered f"
  shows "matchesCountFilters tz f item \<longleftrightarrow> countEligible tz f item"
proof (cases "dateRange f")
  case None
  then show ?thesis
    by (auto simp: matchesCountFilters_def countEligible_def passesWorkflowAndMode_def
        passesDateRange_def)
next
  case (Some r)
  show ?thesis
  proof (cases "from r")
    case None
    with Some show ?thesis
      by (auto simp: matchesCountFilters_def countEligible_def passesWorkflowAndMode_def
          passesDateRange_def)
  next
    case (Some fr)
    have o: "fr \<le> (case to r of None \<Rightarrow> fr | Some t \<Rightarrow> t)"
      using assms \<open>dateRange f = Some r\<close> Some
      by (simp add: rangeOrdered_def split: option.splits)
    show ?thesis
      using matchesCountFilters_dateRange [OF \<open>dateRange f = Some r\<close> Some o, of tz item]
        \<open>dateRange f = Some r\<close> Some
      by (simp add: countEligible_def passesDateRange_def)
  qed
qed

lemma filter_matchesCountFilters:
  assumes "rangeOrdered f"
  shows "filter (matchesCountFilters tz f) xs = countSet tz f xs"
  unfolding countSet_def
  by (rule filter_cong) (simp_all add: matchesCountFilters_countEligible [OF assms])

lemma filteredStats_spec:
  assumes "hasAnyFilters f" and "rangeOrdered f"
  shows "filteredStats tz (Some xs) f stats = Some (specStats tz f xs)"
proof -
  have "filteredStats tz (Some xs) f stats =
     Some ((computeStats (countSet tz f xs))\<lparr>avgDurationMs := meanDuration (durationSet tz f xs)\<rparr>)"
    unfolding filteredStats_recompute [OF assms(1)] statusNarrowing client_avg_mean
      filter_matchesCountFilters [OF assms(2)]
    by (simp add: durationSet_def)
  also have "(computeStats (countSet tz f xs))\<lparr>avgDurationMs := meanDuration (durationSet tz f xs)\<rparr>
     = specStats tz f xs"
    by (simp add: computeStats_def specStats_def Let_def countStatus_countOf)
  finally show ?thesis .
qed

lemma hasAnyFilters_iff:
  "hasAnyFilters f \<longleftrightarrow>
     truthy (statusFilter f) \<or> truthy (workflowFilter f) \<or> truthy (modeFilter f)
     \<or> dateRange f \<noteq> None"
  by (auto simp: hasAnyFilters_def hasCountFilters_def)

lemma mathRound_zero: "mathRound 0 = 0"
proof -
  have "\<lfloor>1 / 2 :: rat\<rfloor> = 0" by (rule floor_unique) simp_all
  then show ?thesis by (simp add: mathRound_def)
qed

lemma server_avg_round:
  "avgDurationMs (computeStats xs) = of_int (mathRound (meanDuration xs))"
  by (simp add: computeStats_def Let_def meanDuration_def durationsWithValues_map_filter
      reduceSum_sum_list mathRound_zero)

text \<open>
  C1, as amended. With at least one of statusFilter, workflowFilter, modeFilter, dateRange
  active and a date range that is not inverted, the client's totalExecutions, its five
  per-status counts and its successRate are those of the server's stats computation over
  the count-eligible records: the fetched records whose workflow name and mode equal the
  filters that are set and whose start time, if they have one, lies within the date
  range. The average differs: the server rounds it to an integer and never narrows by
  status, the client keeps the exact mean of the status-narrowed records. The server's
  average over the status-narrowed records is the client's average rounded; without a
  status filter these are the count-eligible records.
\<close>

theorem client_matches_server_up_to_rounding:
  assumes "truthy (statusFilter f) \<or> truthy (workflowFilter f) \<or> truthy (modeFilter f)
     \<or> dateRange f \<noteq> None"
    and "rangeOrdered f"
  shows "\<exists>c. filteredStats tz (Some records) f stats = Some c
     \<and> sameCounts c (computeStats (countSet tz f records))
     \<and> successRate c = successRate (computeStats (countSet tz f records))
     \<and> avgDurationMs (computeStats (durationSet tz f records))
         = of_int (mathRound (avgDurationMs c))
     \<and> (if truthy (statusFilter f) then True
         else avgDurationMs (computeStats (countSet tz f records))
              = of_int (mathRound (avgDurationMs c)))"
proof -
  have h: "hasAnyFilters f" using assms(1) by (simp add: hasAnyFilters_iff)
  have 0: "\<not> truthy (statusFilter f) \<Longrightarrow> durationSet tz f records = countSet tz f records"
    by (simp add: durationSet_def matchesStatusFilter_def)
  have 1: "sameCounts (specStats tz f records) (computeStats (countSet tz f records))"
    by (simp add: sameCounts_def specStats_def computeStats_def Let_def countStatus_countOf)
  have 2: "successRate (specStats tz f records)
      = successRate (computeStats (countSet tz f records))"
    by (simp add: specStats_def computeStats_def Let_def countStatus_countOf)
  have 3: "avgDurationMs (computeStats (durationSet tz f records))
      = of_int (mathRound (avgDurationMs (specStats tz f records)))"
    by (simp add: server_avg_round specStats_def)
  show ?thesis using filteredStats_spec [OF h assms(2)] 0 1 2 3 by auto
qed

theorem client_matches_server_up_to_rounding_witness:
  "truthy (workflowFilter workflowA) \<and> rangeOrdered workflowA
   \<and> countSet 0 workflowA sampleLogs = take 2 sampleLogs
   \<and> (\<exists>c. filteredStats 0 (Some sampleLogs) workflowA None = Some c
     \<and> sameCounts c (computeStats (countSet 0 workflowA sampleLogs))
     \<and> successRate c = successRate (computeStats (countSet 0 workflowA sampleLogs))
     \<and> avgDurationMs (computeStats (countSet 0 workflowA sampleLogs))
         = of_int (mathRound (avgDurationMs c)))"
proof -
  have t: "truthy (workflowFilter workflowA)"
    by (simp add: workflowA_def noFilters_def truthy_def)
  then have a: "truthy (statusFilter workflowA) \<or> truthy (workflowFilter workflowA)
     \<or> truthy (modeFilter workflowA) \<or> dateRange workflowA \<noteq> None" by simp
  have o: "rangeOrdered workflowA"
    by (simp add: rangeOrdered_def workflowA_def noFilters_def)
  have s: "countSet 0 workflowA sampleLogs = take 2 sampleLogs" by code_simp
  note c = client_matches_server_up_to_rounding [OF a o, of 0 sampleLogs None]
  have n: "\<not> truthy (statusFilter workflowA)"
    by (simp add: workflowA_def noFilters_def truthy_def)
  from c t o s n show ?thesis by auto
qed

text \<open>
  C1 as stated fails. For the two records of workflow A, with durations 100 and 101, the
  client reports the average 201/2 and the server computation over the same two records
  reports 101. And with a date range active the client counts a record without a start
  time, which the restriction of section 4.1 leaves out.
\<close>

theorem client_average_differs_from_server:
  "map_option avgDurationMs (filteredStats 0 (Some sampleLogs) workflowA None) = Some (201 / 2)
   \<and> avgDurationMs (computeStats (countSet 0 workflowA sampleLogs)) = 101
   \<and> map_option avgDurationMs (filteredStats 0 (Some sampleLogs) workflowA None)
       \<noteq> Some (avgDurationMs (computeStats (countSet 0 workflowA sampleLogs)))
   \<and> map_option totalExecutions (filteredStats 0 (Some [undatedLog]) (dayFilter None) None)
       = Some 1
   \<and> totalExecutions (computeStats (countSetStrict 0 (dayFilter None) [undatedLog])) = 0"
  by code_simp

text \<open>
  C3, as amended. With at least one of statusFilter, workflowFilter, modeFilter, dateRange
  active (instanceFilter does not count: it only selects the server queries) and a date
  range that is not inverted, totalExecutions and the five per-status counts are taken
  over the count-eligible records, whatever statusFilter is: the records whose workflow
  name and mode equal the filters that are set and whose start time lies within the date
  range, a record without a start time being kept. avgDurationMs is the mean of the
  non-null durations of those records narrowed by statusFilter, and 0 when there is
  none; successRate is 100 * successCount / totalExecutions, and 0 for an empty total.
\<close>

theorem recompute_follows_specification:
  assumes "truthy (statusFilter f) \<or> truthy (workflowFilter f) \<or> truthy (modeFilter f)
     \<or> dateRange f \<noteq> None"
    and "rangeOrdered f"
  shows "filteredStats tz (Some records) f stats = Some (specStats tz f records)"
  using assms by (simp add: filteredStats_spec hasAnyFilters_iff)

theorem recompute_follows_specification_witness:
  "truthy (statusFilter statusOnly) \<and> rangeOrdered statusOnly
   \<and> filteredStats 0 (Some sampleLogs) statusOnly (Some sampleStats)
       = Some (specStats 0 statusOnly sampleLogs)
   \<and> countSet 0 statusOnly sampleLogs = sampleLogs
   \<and> totalExecutions (specStats 0 statusOnly sampleLogs) = 3
   \<and> errorCount (specStats 0 statusOnly sampleLogs) = 1
   \<and> avgDurationMs (specStats 0 statusOnly sampleLogs) = 201 / 2
   \<and> rangeOrdered (dayFilter (Some 0))
   \<and> filteredStats 0 (Some (undatedLog # sampleLogs)) (dayFilter (Some 0)) None
       = Some (specStats 0 (dayFilter (Some 0)) (undatedLog # sampleLogs))
   \<and> totalExecutions (specStats 0 (dayFilter (Some 0)) (undatedLog # sampleLogs)) = 4"
proof -
  have t: "truthy (statusFilter statusOnly)"
    by (simp add: statusOnly_def noFilters_def truthy_def)
  then have a: "truthy (statusFilter statusOnly) \<or> truthy (workflowFilter statusOnly)
     \<or> truthy (modeFilter statusOnly) \<or> dateRange statusOnly \<noteq> None" by simp
  have o: "rangeOrdered statusOnly"
    by (simp add: rangeOrdered_def statusOnly_def noFilters_def)
  note r = recompute_follows_specification [OF a o, of 0 sampleLogs "Some sampleStats"]
  have 0: "countSet 0 statusOnly sampleLogs = sampleLogs" by code_simp
  have 1: "totalExecutions (specStats 0 statusOnly sampleLogs) = 3" by code_simp
  have 2: "errorCount (specStats 0 statusOnly sampleLogs) = 1" by code_simp
  have 3: "avgDurationMs (specStats 0 statusOnly sampleLogs) = 201 / 2" by code_simp
  have a': "truthy (statusFilter (dayFilter (Some 0))) \<or> truthy (workflowFilter (dayFilter (Some 0)))
     \<or> truthy (modeFilter (dayFilter (Some 0))) \<or> dateRange (dayFilter (Some 0)) \<noteq> None"
    by (simp add: dayFilter_def)
  have o': "rangeOrdered (dayFilter (Some 0))"
    by (simp add: rangeOrdered_def dayFilter_def)
  note r' = recompute_follows_specification [OF a' o', of 0 "undatedLog # sampleLogs" None]
  have 4: "totalExecutions (specStats 0 (dayFilter (Some 0)) (undatedLog # sampleLogs)) = 4"
    by code_simp
  from t o r 0 1 2 3 o' r' 4 show ?thesis by simp
qed

text \<open>
  C3 as stated fails. When instanceFilter is the only active dimension, the client
  returns the server's stats (5 executions here), not a count over the 3 fetched
  records. And with a date range active, a record without a start time is counted in
  totalExecutions and in its status bucket, though section 4.1 excludes it from the
  subset.
\<close>

theorem instance_filter_alone_returns_server_stats:
  "instanceFilter instanceOnly = Some ''prod''
   \<and> filteredStats 0 (Some sampleLogs) instanceOnly (Some sampleStats) = Some sampleStats
   \<and> totalExecutions sampleStats = 5
   \<and> length (countSet 0 instanceOnly sampleLogs) = 3
   \<and> started_at undatedLog = None
   \<and> map_option totalExecutions (filteredStats 0 (Some [undatedLog]) (dayFilter None) None)
       = Some 1
   \<and> map_option runningCount (filteredStats 0 (Some [undatedLog]) (dayFilter None) None)
       = Some 1
   \<and> countSetStrict 0 (dayFilter None) [undatedLog] = []"
  by code_simp

text \<open>
  C4, as amended. With workflowFilter, modeFilter and dateRange absent, switching
  statusFilter on leaves the daily series the server's; before the switch the stats are
  the server's; after it totalExecutions and the five counts are recounted from the
  fetched records without narrowing, so they are what the server computation gives for
  those records (the server-provided values only if the server's stats describe exactly
  the fetched records), and avgDurationMs is the mean over the records of the chosen
  status.
\<close>

theorem status_toggle_recounts_fetched_records:
  assumes "workflowFilter f = None" and "modeFilter f = None" and "dateRange f = None"
    and "truthy (statusFilter f)"
  shows "filteredDailyStats tz fmt (Some records) f (Some serverDaily) = serverDaily
     \<and> filteredStats tz (Some records) (f\<lparr>statusFilter := None\<rparr>) (Some serverStats)
         = Some serverStats
     \<and> (\<exists>c. filteredStats tz (Some records) f (Some serverStats) = Some c
          \<and> sameCounts c (computeStats records)
          \<and> avgDurationMs c = meanDuration (filter (matchesStatusFilter f) records))"
proof -
  have h: "hasAnyFilters f" using assms(4) by (simp add: hasAnyFilters_iff)
  have o: "rangeOrdered f" using assms(3) by (simp add: rangeOrdered_def)
  have cs: "countSet tz f records = records"
    using assms(1-3)
    by (simp add: countSet_def countEligible_def passesWorkflowAndMode_def
        passesDateRange_def truthy_def)
  have 1: "filteredDailyStats tz fmt (Some records) f (Some serverDaily) = serverDaily"
    using assms(1-3) by (simp add: filteredDailyStats_def hasCountFilters_def truthy_def)
  have 2: "filteredStats tz (Some records) (f\<lparr>statusFilter := None\<rparr>) (Some serverStats)
      = Some serverStats"
    using assms(1-3)
    by (simp add: filteredStats_def hasAnyFilters_def hasCountFilters_def truthy_def)
  have 3: "sameCounts (specStats tz f records) (computeStats records)"
    by (simp add: sameCounts_def specStats_def computeStats_def Let_def countStatus_countOf cs)
  have 4: "avgDurationMs (specStats tz f records)
      = meanDuration (filter (matchesStatusFilter f) records)"
    by (simp add: specStats_def durationSet_def cs)
  show ?thesis using 1 2 3 4 filteredStats_spec [OF h o] by simp
qed

theorem status_toggle_recounts_fetched_records_witness:
  "workflowFilter statusOnly = None \<and> modeFilter statusOnly = None
   \<and> dateRange statusOnly = None \<and> truthy (statusFilter statusOnly)
   \<and> filteredDailyStats 0 (\<lambda>t. ''2024-01-01'') (Some sampleLogs) statusOnly (Some sampleDaily)
       = sampleDaily
   \<and> (\<exists>c. filteredStats 0 (Some sampleLogs) statusOnly (Some (computeStats sampleLogs)) = Some c
        \<and> sameCounts c (computeStats sampleLogs)
        \<and> avgDurationMs c = meanDuration (filter (matchesStatusFilter statusOnly) sampleLogs))"
proof -
  have h: "workflowFilter statusOnly = None" "modeFilter statusOnly = None"
    "dateRange statusOnly = None" "truthy (statusFilter statusOnly)"
    by (simp_all add: statusOnly_def noFilters_def truthy_def)
  from h status_toggle_recounts_fetched_records [OF h, of 0 "\<lambda>t. ''2024-01-01''" sampleLogs
      sampleDaily "computeStats sampleLogs"]
  show ?thesis by simp
qed

text \<open>
  C4 as stated fails when the server's stats cover more than the fetched records: the
  server reports 5 executions, and switching the status filter on shows 3.
\<close>

theorem status_toggle_changes_total:
  "map_option totalExecutions
     (filteredStats 0 (Some sampleLogs) noFilters (Some sampleStats)) = Some 5
   \<and> map_option totalExecutions
     (filteredStats 0 (Some sampleLogs) statusOnly (Some sampleStats)) = Some 3"
  by code_simp

section \<open>The server's daily series\<close>

lemma mapSet_fresh: "k \<notin> fst ` set m \<Longrightarrow> mapSet k v m = m @ [(k, v)]"
  by (induction m) auto

lemma map_of_mapSet: "map_of (mapSet k v m) = (map_of m)(k \<mapsto> v)"
  by (induction m) auto

lemma keys_mapSet:
  "map fst (mapSet k v m) = (if k \<in> fst ` set m then map fst m else map fst m @ [k])"
  by (induction m) force+

lemma daysBefore_fixedZone: "daysBefore (fixedZone c) now k = now - k * msPerDay"
  by (simp add: daysBefore_def fixedZone_def Let_def)

lemma utcDay_daysBefore: "utcDay (daysBefore (fixedZone c) now k) = utcDay now - k"
proof -
  have "(now + (- k) * msPerDay) div msPerDay = (- k) + now div msPerDay"
    by (rule div_mult_self1) (simp add: msPerDay_def)
  then show ?thesis by (simp add: utcDay_def daysBefore_fixedZone)
qed

lemma seed_prefix:
  "foldl (\<lambda>m i. mapSet (c + i) z m) [] [0..int n - 1] = map (\<lambda>d. (d, z)) [c..c + int n - 1]"
proof (induction n)
  case 0
  show ?case by simp
next
  case (Suc n)
  have l: "[0..int (Suc n) - 1] = [0..int n - 1] @ [int n]"
    using upto_rec2 [of 0 "int n"] by simp
  have r: "[c..c + int (Suc n) - 1] = [c..c + int n - 1] @ [c + int n]"
    using upto_rec2 [of c "c + int n"] by simp
  have fresh: "c + int n \<notin> fst ` set (map (\<lambda>d. (d, z)) [c..c + int n - 1])"
    by (auto simp: image_iff)
  show ?case
    unfolding l r foldl_append Suc.IH
    by (simp add: mapSet_fresh [OF fresh])
qed

lemma seedDailyMap_window:
  "seedDailyMap (fixedZone c) now days = map (\<lambda>d. (d, 0, 0, 0)) (window now days)"
proof (cases "0 \<le> days")
  case False
  then show ?thesis by (simp add: seedDailyMap_def window_def)
next
  case True
  define n where "n = nat (days + 1)"
  have d: "days = int n - 1" using True by (simp add: n_def)
  have "seedDailyMap (fixedZone c) now days =
      foldl (\<lambda>m i. mapSet ((utcDay now - days) + i) (0, 0, 0) m) [] [0..int n - 1]"
    by (simp add: seedDailyMap_def utcDay_daysBefore d algebra_simps)
  also have "\<dots> = map (\<lambda>d. (d, 0, 0, 0)) [(utcDay now - days)..(utcDay now - days) + int n - 1]"
    by (rule seed_prefix)
  also have "(utcDay now - days) + int n - 1 = utcDay now" by (simp add: d)
  finally show ?thesis by (simp add: window_def)
qed

lemma keys_addToDailyMap:
  "\<exists>extra. map fst (addToDailyMap m e) = map fst m @ extra"
  by (auto simp: addToDailyMap_def keys_mapSet split: prod.splits)

lemma distinct_addToDailyMap:
  "distinct (map fst m) \<Longrightarrow> distinct (map fst (addToDailyMap m e))"
  by (auto simp: addToDailyMap_def keys_mapSet split: prod.splits)

lemma getOrZero_addToDailyMap:
  "getOrZero (addToDailyMap m e) d =
     (if utcDay (created_at e) = d
      then (case getOrZero m d of (t, s, er) \<Rightarrow>
              (t + 1, (if status e = Success then s + 1 else s),
               (if status e = Error then er + 1 else er)))
      else getOrZero m d)"
  by (auto simp: getOrZero_def addToDailyMap_def map_of_mapSet split: prod.splits option.splits)

lemma keys_foldl:
  "\<exists>extra. map fst (foldl addToDailyMap m xs) = map fst m @ extra"
proof (induction xs arbitrary: m)
  case Nil
  show ?case by simp
next
  case (Cons e xs)
  obtain e1 where 1: "map fst (addToDailyMap m e) = map fst m @ e1"
    using keys_addToDailyMap by blast
  obtain e2 where 2: "map fst (foldl addToDailyMap (addToDailyMap m e) xs)
      = map fst (addToDailyMap m e) @ e2"
    using Cons.IH by blast
  show ?case using 1 2 by simp
qed

lemma distinct_foldl:
  "distinct (map fst m) \<Longrightarrow> distinct (map fst (foldl addToDailyMap m xs))"
  by (induction xs arbitrary: m) (simp_all add: distinct_addToDailyMap)

lemma getOrZero_foldl:
  "getOrZero (foldl addToDailyMap m xs) d =
     (case (getOrZero m d, dayCounts d xs) of
        ((t, s, er), (t', s', er')) \<Rightarrow> (t + t', s + s', er + er'))"
proof (induction xs arbitrary: m)
  case Nil
  show ?case by (simp add: dayCounts_def onDay_def countOf_def split: prod.splits)
next
  case (Cons e xs)
  show ?case
    unfolding foldl_Cons Cons.IH getOrZero_addToDailyMap
    by (auto simp: dayCounts_def onDay_def countOf_def split: prod.splits)
qed

lemma getOrZero_seed: "getOrZero (seedDailyMap (fixedZone c) now days) d = (0, 0, 0)"
  by (auto simp: getOrZero_def seedDailyMap_window map_of_map_restrict restrict_map_def
      split: option.splits dest: map_of_SomeD)

lemma distinct_seed: "distinct (map fst (seedDailyMap (fixedZone c) now days))"
  by (simp add: seedDailyMap_window comp_def window_def)

lemma count_list_distinct: "distinct xs \<Longrightarrow> x \<in> set xs \<Longrightarrow> count_list xs x = 1"
  by (induction xs) auto

text \<open>
  Where the server's zone keeps one offset, the series is gap-free: the seed is the zero
  buckets of today - days .. today in ascending order, these days stay first, no day
  occurs twice, and each bucket holds the counts of the rows of its day.
\<close>

lemma daily_series_fixed_offset:
  "seedDailyMap (fixedZone c) now days = map (\<lambda>d. (d, 0, 0, 0)) (window now days)
   \<and> (\<exists>later. map fst (dailyMap (fixedZone c) now days data) = window now days @ later)
   \<and> distinct (map fst (dailyMap (fixedZone c) now days data))
   \<and> (\<forall>d \<in> set (window now days).
         count_list (map fst (dailyMap (fixedZone c) now days data)) d = 1)
   \<and> getOrZero (dailyMap (fixedZone c) now days data) d = dayCounts d data"
proof -
  obtain later where 1: "map fst (dailyMap (fixedZone c) now days data) = window now days @ later"
    using keys_foldl [of "seedDailyMap (fixedZone c) now days" data]
    by (auto simp: dailyMap_def seedDailyMap_window comp_def)
  have 2: "distinct (map fst (dailyMap (fixedZone c) now days data))"
    unfolding dailyMap_def by (rule distinct_foldl [OF distinct_seed])
  have 3: "\<forall>d \<in> set (window now days).
      count_list (map fst (dailyMap (fixedZone c) now days data)) d = 1"
  proof
    fix d assume "d \<in> set (window now days)"
    then have "d \<in> set (map fst (dailyMap (fixedZone c) now days data))" unfolding 1 by simp
    then show "count_list (map fst (dailyMap (fixedZone c) now days data)) d = 1"
      by (rule count_list_distinct [OF 2])
  qed
  have 4: "getOrZero (dailyMap (fixedZone c) now days data) d = dayCounts d data"
    by (simp add: dailyMap_def getOrZero_foldl getOrZero_seed split: prod.splits)
  show ?thesis using seedDailyMap_window 1 2 3 4 by blast
qed

text \<open>
  C8. The handler steps back through the local calendar of the server
  (\<open>setDate(getDate() - k)\<close>) but keys the buckets by the UTC date. In a zone with
  daylight saving the two disagree: at 2024-03-10T23:30Z in New York, with
  \<open>days = 1\<close>, the window is the days 19791 and 19792 (9 and 10 March), but both
  rounds of the seeding loop give the key of 10 March, so the seed and the response hold
  one bucket and 9 March is missing.
\<close>

theorem daily_seed_skips_day_under_dst:
  "utcDay springEvening = 19792
   \<and> window springEvening 1 = [19791, 19792]
   \<and> utcDay (daysBefore newYorkSpring2024 springEvening 1) = 19792
   \<and> utcDay (daysBefore newYorkSpring2024 springEvening 0) = 19792
   \<and> seedDailyMap newYorkSpring2024 springEvening 1 = [(19792, 0, 0, 0)]
   \<and> dailyHandler showInt newYorkSpring2024 springEvening (Some ''1'') None (Inr [])
       = Inr [\<lparr>date = ''19792'', total = 0, success = 0, error = 0\<rparr>]"
  by code_simp
section \<open>The two duration formatters\<close>

text \<open>\<open>Math.round\<close> gives the nearest integer, a half going up.\<close>

lemma mathRound_roundedWhole: "mathRound v = roundedWhole v"
proof (cases "v - of_int \<lfloor>v\<rfloor> < 1 / 2")
  case True
  have "\<lfloor>v + 1 / 2\<rfloor> = \<lfloor>v\<rfloor>"
  proof (rule floor_unique)
    show "of_int \<lfloor>v\<rfloor> \<le> v + 1 / 2" using of_int_floor_le [of v] by linarith
    show "v + 1 / 2 < of_int \<lfloor>v\<rfloor> + 1" using True by linarith
  qed
  with True show ?thesis by (simp add: mathRound_def roundedWhole_def)
next
  case False
  have "\<lfloor>v + 1 / 2\<rfloor> = \<lfloor>v\<rfloor> + 1"
  proof (rule floor_unique)
    show "of_int (\<lfloor>v\<rfloor> + 1) \<le> v + 1 / 2" using False by simp
    show "v + 1 / 2 < of_int (\<lfloor>v\<rfloor> + 1) + 1" using floor_correct [of v] by simp
  qed
  with False show ?thesis by (simp add: mathRound_def roundedWhole_def)
qed

lemma formatDuration_ms:
  "v < 1000 \<Longrightarrow> formatDuration (Some v) = showInt (roundedWhole v) @ ''ms''"
  by (simp add: formatDuration_def mathRound_roundedWhole)

lemma formatDuration_s:
  "1000 \<le> v \<Longrightarrow> v < 60000 \<Longrightarrow>
     formatDuration (Some v) = showInt (roundedWhole (v / 1000)) @ ''s''"
  by (simp add: formatDuration_def mathRound_roundedWhole)

lemma formatDuration_m:
  "60000 \<le> v \<Longrightarrow> formatDuration (Some v) = showInt (roundedWhole (v / 60000)) @ ''m''"
  by (simp add: formatDuration_def mathRound_roundedWhole)

lemma formatDurationCard_ms: "formatDurationCard (Some v) = showInt (roundedWhole v) @ ''ms''"
proof (cases "v = 0")
  case True
  have "showInt (roundedWhole 0) = ''0''" by code_simp
  with True show ?thesis by (simp add: formatDurationCard_def)
next
  case False
  then show ?thesis by (simp add: formatDurationCard_def mathRound_roundedWhole)
qed

text \<open>
  C9, as amended. The execution table's formatter prints every non-null millisecond value
  as rounded whole milliseconds below 1000, as rounded whole seconds from 1000 to 59999
  (and up to 60000, not included) and as rounded whole minutes from 60000. The
  dashboard's Avg Duration card has its own formatter: it prints every value, whole or
  fractional, as rounded whole milliseconds, and a missing value as ''0ms''.
\<close>

theorem table_duration_format:
  "(v < 1000 \<longrightarrow> formatDuration (Some v) = showInt (roundedWhole v) @ ''ms'')
   \<and> (1000 \<le> v \<and> v \<le> 59999 \<longrightarrow>
        formatDuration (Some v) = showInt (roundedWhole (v / 1000)) @ ''s'')
   \<and> (1000 \<le> v \<and> v < 60000 \<longrightarrow>
        formatDuration (Some v) = showInt (roundedWhole (v / 1000)) @ ''s'')
   \<and> (60000 \<le> v \<longrightarrow>
        formatDuration (Some v) = showInt (roundedWhole (v / 60000)) @ ''m'')
   \<and> formatDurationCard (Some v) = showInt (roundedWhole v) @ ''ms''
   \<and> formatDurationCard None = ''0ms''"
proof -
  have n: "formatDurationCard None = ''0ms''" by (simp add: formatDurationCard_def)
  show ?thesis
    using formatDuration_ms [of v] formatDuration_s [of v] formatDuration_m [of v]
      formatDurationCard_ms [of v] n
    by simp
qed

theorem table_duration_format_witness:
  "formatDuration (Some 999) = ''999ms'' \<and> formatDuration (Some 1000) = ''1s''
   \<and> formatDuration (Some 59999) = ''60s'' \<and> formatDuration (Some 60000) = ''1m''
   \<and> formatDuration (Some 125000) = ''2m''
   \<and> formatDuration (Some (1999 / 2)) = ''1000ms''
   \<and> formatDurationCard (Some (201 / 2)) = ''101ms''
   \<and> formatDurationCard (Some 125000) = ''125000ms''"
proof -
  have 1: "showInt (roundedWhole 999) = ''999''" by code_simp
  have 2: "showInt (roundedWhole (1000 / 1000)) = ''1''" by code_simp
  have 3: "showInt (roundedWhole (59999 / 1000)) = ''60''" by code_simp
  have 4: "showInt (roundedWhole (60000 / 60000)) = ''1''" by code_simp
  have 5: "showInt (roundedWhole (125000 / 60000)) = ''2''" by code_simp
  have 6: "showInt (roundedWhole (1999 / 2)) = ''1000''" by code_simp
  have 7: "showInt (roundedWhole (201 / 2)) = ''101''" by code_simp
  have 8: "showInt (roundedWhole 125000) = ''125000''" by code_simp
  have a: "formatDuration (Some 999) = ''999ms''"
    using table_duration_format [of 999] 1 by simp
  have b: "formatDuration (Some 1000) = ''1s''"
    using table_duration_format [of 1000] 2 by simp
  have c: "formatDuration (Some 59999) = ''60s''"
    using table_duration_format [of 59999] 3 by simp
  have d: "formatDuration (Some 60000) = ''1m''"
    using table_duration_format [of 60000] 4 by simp
  have e: "formatDuration (Some 125000) = ''2m''"
    using table_duration_format [of 125000] 5 by simp
  have f: "formatDuration (Some (1999 / 2)) = ''1000ms''"
    using table_duration_format [of "1999 / 2"] 6 by simp
  have g: "formatDurationCard (Some (201 / 2)) = ''101ms''"
    using table_duration_format [of "201 / 2"] 7 by simp
  have h: "formatDurationCard (Some 125000) = ''125000ms''"
    using table_duration_format [of 125000] 8 by simp
  from a b c d e f g h show ?thesis by simp
qed

text \<open>
  C9 as stated fails for the Avg Duration card: its formatter prints 125000 as
  ''125000ms'', where the execution table prints ''2m''.
\<close>

theorem card_duration_always_milliseconds:
  "formatDurationCard (Some 125000) = ''125000ms'' \<and> formatDuration (Some 125000) = ''2m''"
  by code_simp

section \<open>A parameter that parses to zero\<close>

lemma orDefault_zero: "orDefault (Some 0) d = d" "orDefault None d = d"
  by (simp_all add: orDefault_def)

lemma parseInt_None: "parseInt None = None"
  by (simp add: parseInt_def)

text \<open>
  C10. A \<open>limit\<close> or \<open>days\<close> parameter that parses to 0 is treated as an absent
  or a non-numeric one: the limit is 100 and the window 14 days, and both handlers
  answer as they do without the parameter.
\<close>

theorem zero_parameter_falls_back_to_default:
  assumes "parseInt q = Some 0"
  shows "executionsLimit q = 100 \<and> dailyDays q = 14
     \<and> executionsLimit q = executionsLimit None \<and> dailyDays q = dailyDays None
     \<and> (parseInt q' = None \<longrightarrow>
           executionsLimit q = executionsLimit q' \<and> dailyDays q = dailyDays q')
     \<and> executionsHandler limitRows q inst db = executionsHandler limitRows None inst db
     \<and> dailyHandler label zone now q inst db = dailyHandler label zone now None inst db"
proof -
  have l: "executionsLimit q = 100" "executionsLimit None = 100"
    using assms by (simp_all add: executionsLimit_def orDefault_zero parseInt_None)
  have d: "dailyDays q = 14" "dailyDays None = 14"
    using assms by (simp_all add: dailyDays_def orDefault_zero parseInt_None)
  have n: "parseInt q' = None \<longrightarrow> executionsLimit q' = 100 \<and> dailyDays q' = 14"
    by (simp add: executionsLimit_def dailyDays_def orDefault_zero)
  have h1: "executionsHandler limitRows q inst db = executionsHandler limitRows None inst db"
    by (cases db) (simp_all add: executionsHandler_def l)
  have h2: "dailyHandler label zone now q inst db = dailyHandler label zone now None inst db"
    by (cases db) (simp_all add: dailyHandler_def d)
  show ?thesis using l d n h1 h2 by simp
qed

theorem zero_parameter_falls_back_to_default_witness:
  "parseInt (Some ''0'') = Some 0
   \<and> executionsLimit (Some ''0'') = 100 \<and> dailyDays (Some ''0'') = 14
   \<and> parseInt (Some ''abc'') = None
   \<and> executionsLimit (Some ''0'') = executionsLimit (Some ''abc'')
   \<and> executionsHandler (\<lambda>n xs. Inr (take (nat n) xs)) (Some ''0'') None (Inr [sampleLog])
       = Inr [sampleLog]"
proof -
  have p: "parseInt (Some ''0'') = Some 0" by code_simp
  have a: "parseInt (Some ''abc'') = None" by code_simp
  have e: "executionsHandler (\<lambda>n xs. Inr (take (nat n) xs)) None None (Inr [sampleLog])
       = Inr [sampleLog]" by code_simp
  note c = zero_parameter_falls_back_to_default [OF p, of "Some ''abc''" "\<lambda>n xs. Inr (take (nat n) xs)" None "Inr [sampleLog]"]
  have 1: "executionsLimit (Some ''0'') = 100" "dailyDays (Some ''0'') = 14" using c by blast+
  have 2: "executionsLimit (Some ''0'') = executionsLimit (Some ''abc'')" using c a by blast
  have 3: "executionsHandler (\<lambda>n xs. Inr (take (nat n) xs)) (Some ''0'') None (Inr [sampleLog])
       = Inr [sampleLog]" using c e by metis
  from p a 1 2 3 show ?thesis by blast
qed

end
